theory Spec2Isabelle
  imports Complex_Main "HOL-Library.Sublist" "HOL-Library.Char_ord" "HOL-Library.List_Lexorder"
begin

section \<open>Python values\<close>

text \<open>
  The script works on what \<^verbatim>\<open>json.loads\<close> returns: \<^verbatim>\<open>None\<close>, booleans, integers,
  floats, strings, lists and dictionaries with string keys. A dictionary is an association
  list in insertion order, looked up with \<open>map_of\<close>; the parser never yields a key twice.
  A float is the rational number it denotes (a finite float other than the negative zero).
  A string is a list of characters, \<open>length\<close> being Python's \<^verbatim>\<open>len\<close>; strings are
  compared character by character, as Python compares them.
\<close>

datatype json =
    JNull
  | JBool bool
  | JInt int
  | JFloat rat
  | JStr string
  | JArr "json list"
  | JObj "(string \<times> json) list"

text \<open>
  The exceptions the script can meet. \<open>URLError\<close> stands for everything the HTTP call and
  the JSON parser raise.
\<close>

datatype error = AttributeError | TypeError | KeyError | URLError

text \<open>Truth value testing, as in \<^verbatim>\<open>if x:\<close>.\<close>

fun truthy :: "json \<Rightarrow> bool" where
  "truthy JNull = False"
| "truthy (JBool b) = b"
| "truthy (JInt i) = (i \<noteq> 0)"
| "truthy (JFloat r) = (r \<noteq> 0)"
| "truthy (JStr s) = (s \<noteq> [])"
| "truthy (JArr xs) = (xs \<noteq> [])"
| "truthy (JObj kvs) = (kvs \<noteq> [])"

text \<open>Lists and dictionaries have no hash: using one as a key or a set member raises.\<close>

fun hashable :: "json \<Rightarrow> bool" where
  "hashable (JArr xs) = False"
| "hashable (JObj kvs) = False"
| "hashable v = True"

fun is_list :: "json \<Rightarrow> bool" where
  "is_list (JArr xs) = True"
| "is_list v = False"

fun is_dict :: "json \<Rightarrow> bool" where
  "is_dict (JObj kvs) = True"
| "is_dict v = False"

text \<open>
  \<^verbatim>\<open>d.get(k, dflt)\<close>: \<open>lookup\<close> on the entries of a dictionary; any other value has
  no such method.
\<close>

definition lookup :: "(string \<times> json) list \<Rightarrow> string \<Rightarrow> json \<Rightarrow> json" where
  "lookup kvs k dflt = (case map_of kvs k of None \<Rightarrow> dflt | Some v \<Rightarrow> v)"

fun dict_get :: "json \<Rightarrow> string \<Rightarrow> json \<Rightarrow> error + json" where
  "dict_get (JObj kvs) k dflt = Inr (lookup kvs k dflt)"
| "dict_get v k dflt = Inl AttributeError"

text \<open>\<^verbatim>\<open>x in S\<close> for a set \<open>S\<close> of strings: \<open>x\<close> is hashed first.\<close>

definition in_str_set :: "json \<Rightarrow> string list \<Rightarrow> error + bool" where
  "in_str_set x S =
     (if hashable x then Inr (case x of JStr s \<Rightarrow> s \<in> set S | _ \<Rightarrow> False)
      else Inl TypeError)"

text \<open>\<^verbatim>\<open>x == s\<close> for a string \<open>s\<close>.\<close>

definition eq_str :: "json \<Rightarrow> string \<Rightarrow> bool" where
  "eq_str x s = (x = JStr s)"

text \<open>\<^verbatim>\<open>sep.join(xs)\<close> on a list of strings.\<close>

fun join :: "string \<Rightarrow> string list \<Rightarrow> string" where
  "join sep [] = []"
| "join sep [x] = x"
| "join sep (x # y # ys) = x @ sep @ join sep (y # ys)"

text \<open>Decimal rendering of an integer, as \<^verbatim>\<open>str\<close> gives it.\<close>

fun digits :: "nat \<Rightarrow> string" where
  "digits n =
     (if n < 10 then [''0123456789'' ! n]
      else digits (n div 10) @ [''0123456789'' ! (n mod 10)])"

declare digits.simps [simp del]

definition str_int :: "int \<Rightarrow> string" where
  "str_int i = (if i < 0 then CHR ''-'' # digits (nat (- i)) else digits (nat i))"

text \<open>
  \<^verbatim>\<open>str(x)\<close>, which an f-string applies to each value it interpolates. For a float, a list
  or a dictionary it is the interpreter's \<^verbatim>\<open>repr\<close>, taken as the parameter \<open>repr\<close>.
\<close>

fun py_str :: "(json \<Rightarrow> string) \<Rightarrow> json \<Rightarrow> string" where
  "py_str repr JNull = ''None''"
| "py_str repr (JBool b) = (if b then ''True'' else ''False'')"
| "py_str repr (JInt i) = str_int i"
| "py_str repr (JStr s) = s"
| "py_str repr v = repr v"

section \<open>The control filter\<close>

definition SKIP_CONTAINS :: "string list" where
  "SKIP_CONTAINS =
    [''_font_family'', ''_font_size'', ''_font_weight'', ''_text_transform'', ''_font_style'',
     ''_text_decoration'', ''_line_height'', ''_letter_spacing'', ''_word_spacing'',
     ''_text_shadow'',
     ''_box_shadow'',
     ''_color_stop'', ''_color_b'', ''_gradient_type'', ''_gradient_angle'', ''_gradient_position'',
     ''_xpos'', ''_ypos'', ''_attachment'', ''_repeat'', ''_bg_width'',
     ''_slideshow_'', ''_video_link'', ''_video_start'', ''_video_end'', ''_video_fallback'',
     ''_play_once'', ''_privacy_mode'', ''_ken_burns'',
     ''_blur'', ''_brightness'', ''_contrast'', ''_saturate'', ''_hue'',
     ''_stroke_color'']"

definition SKIP_SUFFIXES :: "string list" where
  "SKIP_SUFFIXES =
    [''_tablet'', ''_mobile'', ''_widescreen'', ''_laptop'', ''_tablet_extra'', ''_mobile_extra'']"

definition SKIP_TYPES :: "string list" where
  "SKIP_TYPES =
    [''hidden'', ''section'', ''tabs'', ''tab'', ''alert'', ''divider'', ''raw_html'',
     ''deprecated_notice'', ''heading'']"

definition SKIP_EXACT :: "string list" where
  "SKIP_EXACT =
    [''background_position'', ''background_size'', ''background_image'',
     ''background_video'', ''background_color_stop'']"

text \<open>
  The loop over \<open>SKIP_CONTAINS\<close>: the first pattern found in the key decides, \<open>None\<close> when
  the loop ends without returning.
\<close>

fun skip_contains_loop :: "string list \<Rightarrow> string \<Rightarrow> bool option" where
  "skip_contains_loop [] key = None"
| "skip_contains_loop (pattern # ps) key =
     (if sublist pattern key then
        (if suffix ''_typography'' key \<or> suffix ''_type'' key then Some False else Some True)
      else skip_contains_loop ps key)"

definition should_skip :: "string \<Rightarrow> json \<Rightarrow> error + bool" where
  "should_skip key ctrl =
     (if prefix ''_'' key then Inr True
      else case dict_get ctrl ''type'' JNull of
        Inl e \<Rightarrow> Inl e
      | Inr t \<Rightarrow>
         (case in_str_set t SKIP_TYPES of
            Inl e \<Rightarrow> Inl e
          | Inr True \<Rightarrow> Inr True
          | Inr False \<Rightarrow>
             if list_ex (\<lambda>s. suffix s key) SKIP_SUFFIXES then Inr True
             else if key \<in> set SKIP_EXACT then Inr True
             else
              (case skip_contains_loop SKIP_CONTAINS key of
                 Some b \<Rightarrow> Inr b
               | None \<Rightarrow>
                  if sublist ''hover_'' key \<and>
                     list_ex (\<lambda>p. sublist p key)
                       [''_position'', ''_size'', ''_image'', ''_video'', ''_slideshow'']
                  then Inr True
                  else if sublist ''css_filter'' key \<and> \<not> suffix ''css_filter'' key then Inr True
                  else Inr False)))"

section \<open>The control formatter\<close>

text \<open>
  The three \<^verbatim>\<open>ctrl.get\<close> calls come first, so a descriptor that is not a dictionary
  raises at once. \<^verbatim>\<open>options.keys()\<close> raises on a value that is neither a list (returned
  before) nor a dictionary.
\<close>

fun format_control :: "(json \<Rightarrow> string) \<Rightarrow> string \<Rightarrow> json \<Rightarrow> error + string" where
  "format_control repr key (JObj c) =
     (let ctype = lookup c ''type'' (JStr ''unknown'');
          dflt = lookup c ''default'' (JStr []);
          options = lookup c ''options'' (JObj [])
      in
        if is_list options then Inr (''`'' @ key @ ''` ('' @ py_str repr ctype @ '')'')
        else
          let result = ''`'' @ key @ ''`'' in
          if eq_str ctype ''select'' \<and> truthy options then
            (case options of
               JObj kvs \<Rightarrow>
                (let opt_keys = filter (\<lambda>k. k \<noteq> []) (map fst kvs) in
                 if opt_keys \<noteq> [] then
                   if length opt_keys \<le> 6 then
                     Inr (result @ '' ('' @ join '', '' opt_keys @ '')'')
                   else
                     Inr (result @ '' ('' @ join '', '' (take 5 opt_keys) @ '', +'' @
                          str_int (int (length opt_keys) - 5) @ '')'')
                 else Inr result)
             | _ \<Rightarrow> Inl AttributeError)
          else if eq_str ctype ''choose'' \<and> is_dict options then
            (case options of
               JObj kvs \<Rightarrow> Inr (result @ '' ('' @ join '', '' (map fst kvs) @ '')'')
             | _ \<Rightarrow> Inl AttributeError)
          else if eq_str ctype ''repeater'' then Inr (result @ '' (repeater)'')
          else if eq_str ctype ''switcher'' then Inr (result @ '' (on/off)'')
          else if eq_str ctype ''color'' then Inr (result @ '' (color)'')
          else if eq_str ctype ''slider'' then
            (case dflt of
               JObj d \<Rightarrow>
                 if d \<noteq> [] \<and> truthy (lookup d ''size'' JNull) then
                   Inr (result @ '' (slider, default: '' @ py_str repr (lookup d ''size'' JNull) @
                        py_str repr (lookup d ''unit'' (JStr [])) @ '')'')
                 else Inr (result @ '' (slider)'')
             | _ \<Rightarrow> Inr (result @ '' (slider)''))
          else if eq_str ctype ''dimensions'' then Inr (result @ '' (dimensions)'')
          else if eq_str ctype ''media'' then Inr (result @ '' (media)'')
          else if eq_str ctype ''gallery'' then Inr (result @ '' (gallery)'')
          else if eq_str ctype ''icons'' then Inr (result @ '' (icons)'')
          else if eq_str ctype ''url'' then Inr (result @ '' (url)'')
          else if eq_str ctype ''wysiwyg'' then Inr (result @ '' (wysiwyg)'')
          else if eq_str ctype ''text'' \<or> eq_str ctype ''textarea'' \<or> eq_str ctype ''number'' then
            (case dflt of
               JStr d \<Rightarrow>
                 if d \<noteq> [] \<and> length d < 30 then
                   Inr (result @ '' ('' @ py_str repr ctype @ '', default: '' @ [CHR 0x22] @ d @
                        [CHR 0x22] @ '')'')
                 else Inr (result @ '' ('' @ py_str repr ctype @ '')'')
             | _ \<Rightarrow> Inr (result @ '' ('' @ py_str repr ctype @ '')''))
          else Inr (result @ '' ('' @ py_str repr ctype @ '')''))"
| "format_control repr key v = Inl AttributeError"

section \<open>The widget block\<close>

text \<open>
  The two characters of the source outside ASCII, the dash of the heading and the dot
  between controls, are named constants, written as their UTF-8 bytes. Nothing in the
  script inspects them.
\<close>

definition em_dash :: string where
  "em_dash = [CHR 0xE2, CHR 0x80, CHR 0x94]"

definition middle_dot :: string where
  "middle_dot = [CHR 0xC2, CHR 0xB7]"

definition newline :: string where
  "newline = [CHR 0x0A]"

text \<open>
  \<^verbatim>\<open>sep.join(x)\<close> on a JSON value: a list must hold strings only, a string is joined
  character by character, a dictionary by its keys; nothing else can be iterated.
\<close>

fun str_items :: "json list \<Rightarrow> string list option" where
  "str_items [] = Some []"
| "str_items (JStr s # xs) = map_option (Cons s) (str_items xs)"
| "str_items (v # xs) = None"

fun join_value :: "string \<Rightarrow> json \<Rightarrow> error + string" where
  "join_value sep (JArr xs) =
     (case str_items xs of None \<Rightarrow> Inl TypeError | Some ss \<Rightarrow> Inr (join sep ss))"
| "join_value sep (JStr s) = Inr (join sep (map (\<lambda>c. [c]) s))"
| "join_value sep (JObj kvs) = Inr (join sep (map fst kvs))"
| "join_value sep v = Inl TypeError"

text \<open>
  \<open>section_labels\<close> and \<open>section_tabs\<close> are dictionaries from control keys to values.
  \<open>collect_sections\<close> is the first loop over the controls.
\<close>

type_synonym section_meta = "(string \<rightharpoonup> json) \<times> (string \<rightharpoonup> json)"

fun collect_sections :: "(string \<times> json) list \<Rightarrow> section_meta \<Rightarrow> error + section_meta" where
  "collect_sections [] meta = Inr meta"
| "collect_sections ((key, JObj c) # rest) (section_labels, section_tabs) =
     (if eq_str (lookup c ''type'' JNull) ''section'' then
        collect_sections rest
          (section_labels(key \<mapsto> lookup c ''label'' (JStr key)),
           section_tabs(key \<mapsto> lookup c ''tab'' (JStr ''content'')))
      else collect_sections rest (section_labels, section_tabs))"
| "collect_sections ((key, v) # rest) meta = Inl AttributeError"

text \<open>\<^verbatim>\<open>d.get(k, dflt)\<close> on a dictionary with string keys, for any value \<open>k\<close>: \<open>k\<close> is hashed.\<close>

definition meta_get :: "(string \<rightharpoonup> json) \<Rightarrow> json \<Rightarrow> json \<Rightarrow> error + json" where
  "meta_get d k dflt =
     (if hashable k then
        Inr (case k of
               JStr s \<Rightarrow> (case d s of None \<Rightarrow> dflt | Some v \<Rightarrow> v)
             | _ \<Rightarrow> dflt)
      else Inl TypeError)"

record group =
  g_label :: json
  g_tab :: json
  g_controls :: "(string \<times> json) list"

text \<open>\<open>grouped\<close> is a dictionary from group keys to groups, in insertion order.\<close>

type_synonym grouped = "(string \<times> group) list"

definition append_control :: "grouped \<Rightarrow> string \<Rightarrow> string \<times> json \<Rightarrow> grouped" where
  "append_control grouped group_key kc =
     map (\<lambda>(k, g). if k = group_key then (k, g\<lparr>g_controls := g_controls g @ [kc]\<rparr>) else (k, g))
       grouped"

text \<open>The body of the second loop over the controls, and the loop.\<close>

definition group_control ::
  "(json \<Rightarrow> string) \<Rightarrow> section_meta \<Rightarrow> string \<Rightarrow> json \<Rightarrow> grouped \<Rightarrow> error + grouped"
where
  "group_control repr meta key ctrl grouped =
     (case should_skip key ctrl of
        Inl e \<Rightarrow> Inl e
      | Inr True \<Rightarrow> Inr grouped
      | Inr False \<Rightarrow>
         (case dict_get ctrl ''section'' (JStr ''other'') of
            Inl e \<Rightarrow> Inl e
          | Inr section \<Rightarrow>
             (case meta_get (snd meta) section (JStr ''content'') of
                Inl e \<Rightarrow> Inl e
              | Inr section_tab \<Rightarrow>
                 (case dict_get ctrl ''tab'' section_tab of
                    Inl e \<Rightarrow> Inl e
                  | Inr tab \<Rightarrow>
                     if eq_str tab ''advanced'' then Inr grouped
                     else
                       let group_key = py_str repr tab @ ''|'' @ py_str repr section in
                       (case (if group_key \<in> set (map fst grouped) then Inr grouped
                              else case meta_get (fst meta) section section of
                                Inl e \<Rightarrow> Inl e
                              | Inr label \<Rightarrow>
                                 Inr (grouped @
                                   [(group_key, \<lparr>g_label = label, g_tab = tab, g_controls = []\<rparr>)]))
                        of
                          Inl e \<Rightarrow> Inl e
                        | Inr grouped' \<Rightarrow>
                           Inr (append_control grouped' group_key (key, ctrl)))))))"

fun group_controls ::
  "(json \<Rightarrow> string) \<Rightarrow> section_meta \<Rightarrow> (string \<times> json) list \<Rightarrow> grouped \<Rightarrow> error + grouped"
where
  "group_controls repr meta [] grouped = Inr grouped"
| "group_controls repr meta ((key, ctrl) # rest) grouped =
     (case group_control repr meta key ctrl grouped of
        Inl e \<Rightarrow> Inl e
      | Inr grouped' \<Rightarrow> group_controls repr meta rest grouped')"

text \<open>The list comprehension over a group's controls.\<close>

fun format_controls :: "(json \<Rightarrow> string) \<Rightarrow> (string \<times> json) list \<Rightarrow> error + string list" where
  "format_controls repr [] = Inr []"
| "format_controls repr ((k, c) # rest) =
     (case format_control repr k c of
        Inl e \<Rightarrow> Inl e
      | Inr s \<Rightarrow>
         (case format_controls repr rest of
            Inl e \<Rightarrow> Inl e
          | Inr ss \<Rightarrow> Inr (s # ss)))"

text \<open>The inner loop over the groups of one tab, appending one bullet line per group.\<close>

fun group_lines ::
  "(json \<Rightarrow> string) \<Rightarrow> string \<Rightarrow> grouped \<Rightarrow> string list \<Rightarrow> error + string list"
where
  "group_lines repr tab_name [] lines = Inr lines"
| "group_lines repr tab_name ((group_key, g) # rest) lines =
     (case format_controls repr (g_controls g) of
        Inl e \<Rightarrow> Inl e
      | Inr ctrl_strs \<Rightarrow>
         if ctrl_strs \<noteq> [] then
           group_lines repr tab_name rest
             (lines @ [''- **'' @ py_str repr (g_label g) @ ''** ('' @ tab_name @ ''): '' @
                       join ('' '' @ middle_dot @ '' '') ctrl_strs])
         else group_lines repr tab_name rest lines)"

text \<open>The outer loop over the tab names.\<close>

fun tab_lines ::
  "(json \<Rightarrow> string) \<Rightarrow> string list \<Rightarrow> grouped \<Rightarrow> string list \<Rightarrow> error + string list"
where
  "tab_lines repr [] grouped lines = Inr lines"
| "tab_lines repr (tab_name # rest) grouped lines =
     (let tab_groups = filter (\<lambda>(k, v). eq_str (g_tab v) tab_name) grouped in
      if tab_groups = [] then tab_lines repr rest grouped lines
      else
        case group_lines repr tab_name tab_groups lines of
          Inl e \<Rightarrow> Inl e
        | Inr lines' \<Rightarrow> tab_lines repr rest grouped lines')"

fun format_widget :: "(json \<Rightarrow> string) \<Rightarrow> string \<Rightarrow> json \<Rightarrow> error + string" where
  "format_widget repr name (JObj d) =
     (let title = lookup d ''title'' (JStr name);
          keywords = lookup d ''keywords'' (JArr []);
          controls = lookup d ''controls'' (JObj []);
          lines = [''### `'' @ name @ ''` '' @ em_dash @ '' '' @ py_str repr title]
      in
        case (if truthy keywords then
                case join_value '', '' keywords of
                  Inl e \<Rightarrow> Inl e
                | Inr s \<Rightarrow> Inr (lines @ [''*'' @ s @ ''*''])
              else Inr lines)
        of
          Inl e \<Rightarrow> Inl e
        | Inr lines \<Rightarrow>
           (case controls of
              JObj cs \<Rightarrow>
               (case collect_sections cs (Map.empty, Map.empty) of
                  Inl e \<Rightarrow> Inl e
                | Inr meta \<Rightarrow>
                   (case group_controls repr meta cs [] of
                      Inl e \<Rightarrow> Inl e
                    | Inr grouped \<Rightarrow>
                       (case tab_lines repr [''content'', ''style''] grouped lines of
                          Inl e \<Rightarrow> Inl e
                        | Inr lines \<Rightarrow> Inr (join newline lines))))
            | _ \<Rightarrow> Inl AttributeError))"
| "format_widget repr name v = Inl AttributeError"

section \<open>The script\<close>

text \<open>
  What the script is run with: the argument vector, the process environment, Base64
  encoding of a string, the interpreter's \<^verbatim>\<open>repr\<close>, and the remote site. \<open>http_get url auth\<close>
  is the parsed JSON body of a GET request to \<open>url\<close> with the header
  \<^verbatim>\<open>Authorization: auth\<close>, or the exception raised by the request or by the parser.
\<close>

record host =
  argv :: "string list"
  environ :: "string \<rightharpoonup> string"
  b64encode :: "string \<Rightarrow> string"
  py_repr :: "json \<Rightarrow> string"
  http_get :: "string \<Rightarrow> string \<Rightarrow> error + json"

text \<open>
  What a run does, in order: HTTP requests (URL and authorization header), lines printed
  to standard error, and the \<^verbatim>\<open>SKIP\<close> line printed for a widget with the exception caught.
\<close>

datatype event =
    Request string string
  | Stderr string
  | Skip string error

datatype outcome = Finished | Exit nat | Raised error

record run =
  events :: "event list"
  stdout :: "string option"
  outcome :: outcome

subsection \<open>Credentials\<close>

definition usage :: "event list" where
  "usage =
    [Stderr ''Usage: python generate-widget-reference.py <site-url> <username> <app-password>'',
     Stderr ''   Or set WORDPRESS_API_URL, WORDPRESS_USERNAME, WORDPRESS_PASSWORD env vars'']"

text \<open>\<^verbatim>\<open>os.environ.get(k, dflt)\<close>.\<close>

definition env_get :: "(string \<rightharpoonup> string) \<Rightarrow> string \<Rightarrow> string \<Rightarrow> string" where
  "env_get env k dflt = (case env k of None \<Rightarrow> dflt | Some v \<Rightarrow> v)"

text \<open>
  Lines 15 to 24: the site URL, the user name and the password, or \<open>None\<close> where the
  script prints the usage and exits.
\<close>

definition credentials :: "string list \<Rightarrow> (string \<rightharpoonup> string) \<Rightarrow> (string \<times> string \<times> string) option"
where
  "credentials args env =
     (if length args = 4 then Some (args ! 1, args ! 2, args ! 3)
      else if env_get env ''WORDPRESS_API_URL'' [] \<noteq> [] then
        Some (env_get env ''WORDPRESS_API_URL'' [],
              env_get env ''WORDPRESS_USERNAME'' [],
              env_get env ''WORDPRESS_PASSWORD'' (env_get env ''WORDPRESS_APP_PASSWORD'' []))
      else None)"

text \<open>\<^verbatim>\<open>s.rstrip('/')\<close>.\<close>

definition rstrip_slash :: "string \<Rightarrow> string" where
  "rstrip_slash s = rev (dropWhile (\<lambda>c. c = CHR ''/'') (rev s))"

definition base_url :: "string \<Rightarrow> string" where
  "base_url site_url = rstrip_slash site_url @ ''/wp-json/communitytech/v1/elementor/widgets''"

definition auth_header :: "(string \<Rightarrow> string) \<Rightarrow> string \<Rightarrow> string \<Rightarrow> string" where
  "auth_header b64 username password = ''Basic '' @ b64 (username @ '':'' @ password)"

subsection \<open>The fetch worklist\<close>

definition skip_names :: "string list" where
  "skip_names = [''common-base'', ''common'', ''common-optimized'', ''inner-section'', ''e-component'']"

definition skip_prefixes :: "string list" where
  "skip_prefixes = [''wp-widget-'']"

fun practical_loop :: "(string \<times> json) list \<Rightarrow> string list \<Rightarrow> string list" where
  "practical_loop [] practical = practical"
| "practical_loop ((name, w) # rest) practical =
     (if name \<in> set skip_names then practical_loop rest practical
      else if list_ex (\<lambda>p. prefix p name) skip_prefixes then practical_loop rest practical
      else practical_loop rest (practical @ [name]))"

text \<open>\<^verbatim>\<open>data["widgets"]\<close>, then \<^verbatim>\<open>widgets.items()\<close>.\<close>

fun widgets_items :: "json \<Rightarrow> error + (string \<times> json) list" where
  "widgets_items (JObj d) =
     (case map_of d ''widgets'' of
        None \<Rightarrow> Inl KeyError
      | Some (JObj ws) \<Rightarrow> Inr ws
      | Some v \<Rightarrow> Inl AttributeError)"
| "widgets_items v = Inl TypeError"

subsection \<open>Fetching and bucketing\<close>

text \<open>
  \<open>output_by_cat\<close> is a dictionary, in insertion order, from a widget's primary category
  to its blocks. The category is whatever the detail holds, so keys are compared the way
  Python compares them: numbers (booleans among them) by value, everything else
  structurally.
\<close>

type_synonym buckets = "(json \<times> string list) list"

fun num_val :: "json \<Rightarrow> rat option" where
  "num_val (JBool b) = Some (if b then 1 else 0)"
| "num_val (JInt i) = Some (of_int i)"
| "num_val (JFloat r) = Some r"
| "num_val v = None"

definition key_eq :: "json \<Rightarrow> json \<Rightarrow> bool" where
  "key_eq a b =
     (case num_val a of
        Some x \<Rightarrow> (case num_val b of Some y \<Rightarrow> x = y | None \<Rightarrow> False)
      | None \<Rightarrow> (case num_val b of Some y \<Rightarrow> False | None \<Rightarrow> a = b))"

definition has_key :: "buckets \<Rightarrow> json \<Rightarrow> bool" where
  "has_key output_by_cat cat = list_ex (\<lambda>(k, v). key_eq k cat) output_by_cat"

definition blocks_of :: "buckets \<Rightarrow> json \<Rightarrow> string list" where
  "blocks_of output_by_cat cat = concat (map snd (filter (\<lambda>(k, v). key_eq k cat) output_by_cat))"

definition append_block :: "buckets \<Rightarrow> json \<Rightarrow> string \<Rightarrow> buckets" where
  "append_block output_by_cat cat block =
     map (\<lambda>(k, v). if key_eq k cat then (k, v @ [block]) else (k, v)) output_by_cat"

text \<open>\<^verbatim>\<open>cats[0] if cats else "uncategorized"\<close>.\<close>

fun primary_cat :: "json \<Rightarrow> error + json" where
  "primary_cat (JArr xs) = Inr (case xs of [] \<Rightarrow> JStr ''uncategorized'' | x # _ \<Rightarrow> x)"
| "primary_cat (JStr s) = Inr (case s of [] \<Rightarrow> JStr ''uncategorized'' | c # _ \<Rightarrow> JStr [c])"
| "primary_cat (JObj kvs) = (if kvs = [] then Inr (JStr ''uncategorized'') else Inl KeyError)"
| "primary_cat v = (if truthy v then Inl TypeError else Inr (JStr ''uncategorized''))"

text \<open>
  One turn of the loop of lines 197 to 210, for the widget \<open>name\<close> at index \<open>i\<close> of \<open>n\<close>:
  whatever is raised inside the \<^verbatim>\<open>try\<close> is caught and logged. The category's bucket is
  created before the block is formatted.
\<close>

definition fetch_widget ::
  "host \<Rightarrow> string \<Rightarrow> string \<Rightarrow> nat \<Rightarrow> nat \<Rightarrow> string \<Rightarrow> buckets \<times> event list \<Rightarrow> buckets \<times> event list"
where
  "fetch_widget h base auth n i name st =
     (let output_by_cat = fst st;
          evs = snd st @ [Request (base @ ''/'' @ name) auth]
      in
        case http_get h (base @ ''/'' @ name) auth of
          Inl e \<Rightarrow> (output_by_cat, evs @ [Skip name e])
        | Inr detail \<Rightarrow>
           (case dict_get detail ''categories'' (JArr [JStr ''uncategorized'']) of
              Inl e \<Rightarrow> (output_by_cat, evs @ [Skip name e])
            | Inr cats \<Rightarrow>
               (case primary_cat cats of
                  Inl e \<Rightarrow> (output_by_cat, evs @ [Skip name e])
                | Inr cat \<Rightarrow>
                   if \<not> hashable cat then (output_by_cat, evs @ [Skip name TypeError])
                   else
                     let output_by_cat' =
                           (if has_key output_by_cat cat then output_by_cat
                            else output_by_cat @ [(cat, [])])
                     in
                       case format_widget (py_repr h) name detail of
                         Inl e \<Rightarrow> (output_by_cat', evs @ [Skip name e])
                       | Inr block \<Rightarrow>
                          (append_block output_by_cat' cat block,
                           if (i + 1) mod 20 = 0 then
                             evs @ [Stderr (''  '' @ str_int (int (i + 1)) @ ''/'' @
                                            str_int (int n) @ ''...'')]
                           else evs))))"

fun fetch_loop ::
  "host \<Rightarrow> string \<Rightarrow> string \<Rightarrow> nat \<Rightarrow> (nat \<times> string) list \<Rightarrow> buckets \<times> event list \<Rightarrow>
   buckets \<times> event list"
where
  "fetch_loop h base auth n [] st = st"
| "fetch_loop h base auth n ((i, name) # rest) st =
     fetch_loop h base auth n rest (fetch_widget h base auth n i name st)"

subsection \<open>The document\<close>

definition category_order :: "string list" where
  "category_order =
    [''basic'', ''general'', ''pro-elements'', ''theme-elements'',
     ''theme-elements-single'', ''theme-elements-archive'', ''link-in-bio'']"

definition preamble :: "string list" where
  "preamble =
    [''# Elementor Widget Reference'',
     [],
     ''Auto-generated from the CommunityTech Widget Registry API on thailand.thesilkworthproject.com.'',
     ''To regenerate: query `GET /wp-json/communitytech/v1/elementor/widgets/<name>` for each widget.'',
     [],
     ''## Usage Notes'',
     [],
     ''- **Colors**: always use `__globals__` references '' @ em_dash @ '' `'' @ [CHR 0x22] @
       ''__globals__'' @ [CHR 0x22] @ '': {'' @ [CHR 0x22] @ ''title_color'' @ [CHR 0x22] @ '': '' @
       [CHR 0x22] @ ''globals/colors?id=primary'' @ [CHR 0x22] @ ''}`'',
     ''- **Typography**: use `__globals__` '' @ em_dash @ '' `'' @ [CHR 0x22] @
       ''__globals__'' @ [CHR 0x22] @ '': {'' @ [CHR 0x22] @ ''typography_typography'' @ [CHR 0x22] @
       '': '' @ [CHR 0x22] @ ''globals/typography?id=primary'' @ [CHR 0x22] @ ''}`'',
     ''- **Advanced tab** (margins, padding, motion effects, custom CSS): identical for all widgets, not shown here.'',
     ''- **Responsive variants** (`_tablet`, `_mobile`): not shown '' @ em_dash @
       '' append suffix to any control key.'',
     ''- **Full schema**: `GET /wp-json/communitytech/v1/elementor/widgets/<name>` returns every control.'',
     [],
     ''---'']"

text \<open>The lines of one category section: a blank line, the heading, a blank line, the blocks.\<close>

definition section_lines :: "string \<Rightarrow> string list \<Rightarrow> string list" where
  "section_lines heading blocks =
     [[], ''## '' @ heading, []] @ concat (map (\<lambda>widget_md. [widget_md, []]) blocks)"

text \<open>The loop over \<open>category_order\<close>.\<close>

fun ordered_sections :: "buckets \<Rightarrow> string list \<Rightarrow> string list \<Rightarrow> string list" where
  "ordered_sections output_by_cat [] md = md"
| "ordered_sections output_by_cat (cat # rest) md =
     (if \<not> has_key output_by_cat (JStr cat) then ordered_sections output_by_cat rest md
      else ordered_sections output_by_cat rest
             (md @ section_lines cat (blocks_of output_by_cat (JStr cat))))"

text \<open>
  \<^verbatim>\<open>sorted(output_by_cat.keys())\<close>. Strings are ordered lexicographically by character,
  numbers by value (the sort is stable); any other pair of keys has no order and comparing
  it raises.
\<close>

fun is_str :: "json \<Rightarrow> bool" where
  "is_str (JStr s) = True"
| "is_str v = False"

fun str_of :: "json \<Rightarrow> string" where
  "str_of (JStr s) = s"
| "str_of v = []"

definition sorted_keys :: "json list \<Rightarrow> error + json list" where
  "sorted_keys ks =
     (if list_all is_str ks then Inr (map JStr (sort (map str_of ks)))
      else if list_all (\<lambda>k. num_val k \<noteq> None) ks then
        Inr (sort_key (\<lambda>k. case num_val k of Some x \<Rightarrow> x | None \<Rightarrow> 0) ks)
      else if length ks \<le> 1 then Inr ks
      else Inl TypeError)"

text \<open>The loop over the sorted keys.\<close>

fun other_sections ::
  "(json \<Rightarrow> string) \<Rightarrow> buckets \<Rightarrow> json list \<Rightarrow> string list \<Rightarrow> string list"
where
  "other_sections repr output_by_cat [] md = md"
| "other_sections repr output_by_cat (cat # rest) md =
     (if list_ex (eq_str cat) category_order then other_sections repr output_by_cat rest md
      else other_sections repr output_by_cat rest
             (md @ section_lines (py_str repr cat) (blocks_of output_by_cat cat)))"

text \<open>Lines 212 to 248: the text printed to standard output, unless sorting the keys raises.\<close>

definition document :: "(json \<Rightarrow> string) \<Rightarrow> buckets \<Rightarrow> error + string" where
  "document repr output_by_cat =
     (let md = ordered_sections output_by_cat category_order preamble in
      case sorted_keys (map fst output_by_cat) of
        Inl e \<Rightarrow> Inl e
      | Inr ks \<Rightarrow> Inr (join newline (other_sections repr output_by_cat ks md)))"

subsection \<open>The whole run\<close>

definition main :: "host \<Rightarrow> run" where
  "main h =
     (case credentials (argv h) (environ h) of
        None \<Rightarrow> \<lparr>events = usage, stdout = None, outcome = Exit 1\<rparr>
      | Some (site_url, username, password) \<Rightarrow>
         (let base = base_url site_url;
              auth = auth_header (b64encode h) username password;
              evs = [Request base auth]
          in
            case http_get h base auth of
              Inl e \<Rightarrow> \<lparr>events = evs, stdout = None, outcome = Raised e\<rparr>
            | Inr data \<Rightarrow>
               (case widgets_items data of
                  Inl e \<Rightarrow> \<lparr>events = evs, stdout = None, outcome = Raised e\<rparr>
                | Inr widgets \<Rightarrow>
                   (let practical = practical_loop widgets [];
                        evs = evs @ [Stderr (''Fetching '' @ str_int (int (length practical)) @
                                             '' widgets...'')];
                        st = fetch_loop h base auth (length practical)
                               (enumerate 0 (sort practical)) ([], evs)
                    in
                      case document (py_repr h) (fst st) of
                        Inl e \<Rightarrow> \<lparr>events = snd st, stdout = None, outcome = Raised e\<rparr>
                      | Inr md \<Rightarrow> \<lparr>events = snd st, stdout = Some md, outcome = Finished\<rparr>))))"

section \<open>Sample inputs\<close>

text \<open>A stand-in for the interpreter's \<^verbatim>\<open>repr\<close> on the sample inputs, none of which reaches it.\<close>

fun sample_repr :: "json \<Rightarrow> string" where
  "sample_repr v = ''<repr>''"

definition six_options :: "(string \<times> json) list" where
  "six_options =
    [(''a'', JStr ''A''), (''b'', JStr ''B''), (''c'', JStr ''C''),
     (''d'', JStr ''D''), (''e'', JStr ''E''), (''f'', JStr ''F'')]"

definition eight_options :: "(string \<times> json) list" where
  "eight_options = six_options @ [(''g'', JStr ''G''), (''h'', JStr ''H'')]"

definition select_control :: "(string \<times> json) list \<Rightarrow> (string \<times> json) list" where
  "select_control opts = [(''type'', JStr ''select''), (''options'', JObj opts)]"


definition slider_control :: "(string \<times> json) list" where
  "slider_control =
    [(''type'', JStr ''slider''), (''default'', JObj [(''unit'', JStr ''px''), (''size'', JInt 0)])]"

definition toggle_control :: json where
  "toggle_control = JObj [(''type'', JStr ''popover_toggle''), (''tab'', JStr ''style'')]"

text \<open>Base64 of an ASCII string, for the sample hosts.\<close>

definition b64_alphabet :: string where
  "b64_alphabet = ''ABCDEFGHIJKLMNOPQRSTUVWXYZabcdefghijklmnopqrstuvwxyz0123456789+/''"

fun b64_bytes :: "nat list \<Rightarrow> string" where
  "b64_bytes (a # b # c # rest) =
     [b64_alphabet ! (a div 4), b64_alphabet ! (a mod 4 * 16 + b div 16),
      b64_alphabet ! (b mod 16 * 4 + c div 64), b64_alphabet ! (c mod 64)] @ b64_bytes rest"
| "b64_bytes [a, b] =
     [b64_alphabet ! (a div 4), b64_alphabet ! (a mod 4 * 16 + b div 16),
      b64_alphabet ! (b mod 16 * 4), CHR ''='']"
| "b64_bytes [a] = [b64_alphabet ! (a div 4), b64_alphabet ! (a mod 4 * 16), CHR ''='', CHR ''='']"
| "b64_bytes [] = []"

definition base64 :: "string \<Rightarrow> string" where
  "base64 s = b64_bytes (map of_char s)"




text \<open>
  The run of the example in the specification: the widget list holds \<^verbatim>\<open>heading\<close> and
  \<^verbatim>\<open>common-base\<close>, and the detail of \<^verbatim>\<open>heading\<close> has one text control in the content tab.
\<close>

fun sample_site :: "string \<Rightarrow> string \<Rightarrow> error + json" where
  "sample_site url auth =
     (if url = ''https://example.com/wp-json/communitytech/v1/elementor/widgets'' then
        Inr (JObj [(''widgets'', JObj [(''heading'', JObj []), (''common-base'', JObj [])])])
      else if url = ''https://example.com/wp-json/communitytech/v1/elementor/widgets/heading'' then
        Inr (JObj
          [(''title'', JStr ''Heading''),
           (''keywords'', JArr [JStr ''heading'', JStr ''title'']),
           (''categories'', JArr [JStr ''basic'']),
           (''controls'', JObj
              [(''section_title'', JObj [(''type'', JStr ''section''), (''label'', JStr ''Heading''),
                                         (''tab'', JStr ''content'')]),
               (''title'', JObj [(''type'', JStr ''textarea''), (''section'', JStr ''section_title''),
                                 (''default'', JStr ''Add Your Heading Text Here'')])])])
      else Inl URLError)"

definition sample_host :: host where
  "sample_host =
    \<lparr>argv = [''generate-widget-reference.py'', ''https://example.com/'', ''admin'', ''xxxx xxxx''],
     environ = Map.empty,
     b64encode = base64, py_repr = sample_repr, http_get = sample_site\<rparr>"


text \<open>A widget whose controls are filtered out or lie in the advanced tab.\<close>

definition advanced_only_widget :: "(string \<times> json) list" where
  "advanced_only_widget =
    [(''title'', JStr ''Spacer''),
     (''keywords'', JArr [JStr ''space'', JStr ''gap'']),
     (''categories'', JArr [JStr ''basic'']),
     (''controls'', JObj
        [(''section_effects'', JObj [(''type'', JStr ''section''), (''label'', JStr ''Motion Effects''),
                                     (''tab'', JStr ''advanced'')]),
         (''sticky'', JObj [(''type'', JStr ''select''), (''section'', JStr ''section_effects'')]),
         (''_margin'', JObj [(''type'', JStr ''dimensions''), (''section'', JStr ''section_effects'')]),
         (''custom_css'', JObj [(''type'', JStr ''code''), (''tab'', JStr ''advanced'')])])]"

text \<open>No section header, and two controls with no \<^verbatim>\<open>section\<close> field.\<close>

definition no_sections :: section_meta where
  "no_sections = (Map.empty, Map.empty)"

definition css_control :: "string \<times> json" where
  "css_control = (''custom_css'', JObj [(''type'', JStr ''code''), (''tab'', JStr ''advanced'')])"

definition html_control :: "string \<times> json" where
  "html_control = (''html'', JObj [(''type'', JStr ''code'')])"

text \<open>Two controls whose tab and section give the same group key.\<close>

definition shared_key_controls :: "(string \<times> json) list" where
  "shared_key_controls =
    [(''intro'', JObj [(''type'', JStr ''text''), (''section'', JStr ''x|other''),
                       (''tab'', JStr ''content'')]),
     (''notes'', JObj [(''type'', JStr ''text''), (''tab'', JStr ''content|x'')])]"




section \<open>Vocabulary of the statements\<close>

fun is_request :: "event \<Rightarrow> bool" where
  "is_request (Request url auth) = True"
| "is_request e = False"

text \<open>
  Every block in the buckets is what \<open>format_widget\<close> made of the detail fetched for one
  of the widgets in \<open>N\<close>.
\<close>

definition from_widgets :: "host \<Rightarrow> string \<Rightarrow> string \<Rightarrow> string set \<Rightarrow> buckets \<Rightarrow> bool" where
  "from_widgets h base auth N bs =
     (\<forall>cat blocks b. (cat, blocks) \<in> set bs \<and> b \<in> set blocks \<longrightarrow>
        (\<exists>n \<in> N. \<exists>d. http_get h (base @ ''/'' @ n) auth = Inr d \<and>
                      format_widget (py_repr h) n d = Inr b))"

text \<open>
  The section a control is filed under, and its effective tab: its own \<^verbatim>\<open>tab\<close> field, or
  the tab of its section's header, or \<^verbatim>\<open>content\<close> (lines 169 and 170).
\<close>

definition section_of :: "json \<Rightarrow> error + json" where
  "section_of ctrl = dict_get ctrl ''section'' (JStr ''other'')"

definition effective_tab :: "section_meta \<Rightarrow> json \<Rightarrow> error + json" where
  "effective_tab meta ctrl =
     (case section_of ctrl of
        Inl e \<Rightarrow> Inl e
      | Inr section \<Rightarrow>
         (case meta_get (snd meta) section (JStr ''content'') of
            Inl e \<Rightarrow> Inl e
          | Inr section_tab \<Rightarrow> dict_get ctrl ''tab'' section_tab))"

text \<open>A control that passes the filter and whose effective tab is \<^verbatim>\<open>advanced\<close>.\<close>

definition advanced :: "section_meta \<Rightarrow> string \<times> json \<Rightarrow> bool" where
  "advanced meta kc =
     (should_skip (fst kc) (snd kc) = Inr False \<and>
      effective_tab meta (snd kc) = Inr (JStr ''advanced''))"

text \<open>The first line of a widget block, and the line of its keywords.\<close>

definition heading :: "(json \<Rightarrow> string) \<Rightarrow> string \<Rightarrow> (string \<times> json) list \<Rightarrow> string" where
  "heading repr name d =
     ''### `'' @ name @ ''` '' @ em_dash @ '' '' @ py_str repr (lookup d ''title'' (JStr name))"

text \<open>The keyword line of a widget block, when the widget has keywords.\<close>

definition keyword_lines :: "(string \<times> json) list \<Rightarrow> error + string list" where
  "keyword_lines d =
     (let keywords = lookup d ''keywords'' (JArr []) in
      if truthy keywords then
        case join_value '', '' keywords of
          Inl e \<Rightarrow> Inl e
        | Inr s \<Rightarrow> Inr [''*'' @ s @ ''*'']
      else Inr [])"

text \<open>
  The key of the group of a tab and a section, the label a new group gets, and what the
  loop body does with a control that is neither skipped nor in the advanced tab:
  \<open>placed meta kc tab section\<close> says that \<open>kc\<close> is such a control.
\<close>

definition group_key_of :: "(json \<Rightarrow> string) \<Rightarrow> json \<Rightarrow> json \<Rightarrow> string" where
  "group_key_of repr tab section = py_str repr tab @ ''|'' @ py_str repr section"

definition section_label :: "section_meta \<Rightarrow> json \<Rightarrow> json" where
  "section_label meta section =
     (case meta_get (fst meta) section section of Inr l \<Rightarrow> l | Inl e \<Rightarrow> section)"

definition placed :: "section_meta \<Rightarrow> string \<times> json \<Rightarrow> json \<Rightarrow> json \<Rightarrow> bool" where
  "placed meta kc tab section =
     (should_skip (fst kc) (snd kc) = Inr False \<and> section_of (snd kc) = Inr section \<and>
      effective_tab meta (snd kc) = Inr tab \<and> tab \<noteq> JStr ''advanced'')"

text \<open>Filing a control under a group key, creating the group when the key is new.\<close>

definition file_under :: "grouped \<Rightarrow> string \<Rightarrow> section_meta \<Rightarrow> json \<Rightarrow> json \<Rightarrow> string \<times> json \<Rightarrow> grouped" where
  "file_under g gk meta tab section kc =
     append_control
       (if gk \<in> set (map fst g) then g
        else g @ [(gk, \<lparr>g_label = section_label meta section, g_tab = tab, g_controls = []\<rparr>)])
       gk kc"

text \<open>A group with the label and tab of another and at least its controls.\<close>

definition extends :: "group \<Rightarrow> group \<Rightarrow> bool" where
  "extends gr gr' =
     (g_label gr' = g_label gr \<and> g_tab gr' = g_tab gr \<and> set (g_controls gr) \<subseteq> set (g_controls gr'))"


section \<open>Properties of the control filter\<close>

lemma skip_contains_loop_found:
  "list_ex (\<lambda>p. sublist p key) ps \<Longrightarrow>
   skip_contains_loop ps key = Some (\<not> (suffix ''_typography'' key \<or> suffix ''_type'' key))"
  by (induction ps) auto

text \<open>
  Claim C4. A key that starts with an underscore is skipped, whatever the descriptor is
  (of any type, and even when it is not a dictionary) and whatever the later rules would
  say: the first test of \<open>should_skip\<close> returns before anything else is looked at.
\<close>

theorem should_skip_underscore:
  "prefix ''_'' key \<Longrightarrow> should_skip key ctrl = Inr True"
  by (simp add: should_skip_def)

theorem should_skip_underscore_witness:
  "prefix ''_'' ''_title_text_shadow_type'' \<and>
   should_skip ''_title_text_shadow_type'' toggle_control = Inr True"
  using should_skip_underscore [of "''_title_text_shadow_type''" toggle_control]
  by simp

text \<open>
  Claim C3. A key that contains one of the \<open>SKIP_CONTAINS\<close> patterns and ends with
  \<^verbatim>\<open>_typography\<close> or \<^verbatim>\<open>_type\<close> is kept, provided no earlier rule caught it: it does not
  start with an underscore, the descriptor's type (\<open>None\<close> when absent) is not in
  \<open>SKIP_TYPES\<close>, the key has no responsive suffix and is not in \<open>SKIP_EXACT\<close>.
\<close>

theorem should_skip_keeps_toggle:
  assumes "list_ex (\<lambda>p. sublist p key) SKIP_CONTAINS"
    and "suffix ''_typography'' key \<or> suffix ''_type'' key"
    and "\<not> prefix ''_'' key"
    and "dict_get ctrl ''type'' JNull = Inr t"
    and "in_str_set t SKIP_TYPES = Inr False"
    and "\<not> list_ex (\<lambda>s. suffix s key) SKIP_SUFFIXES"
    and "key \<notin> set SKIP_EXACT"
  shows "should_skip key ctrl = Inr False"
  using assms skip_contains_loop_found [OF assms(1)]
  by (simp add: should_skip_def)

theorem should_skip_keeps_toggle_witness:
  "list_ex (\<lambda>p. sublist p ''title_text_shadow_text_shadow_type'') SKIP_CONTAINS \<and>
   suffix ''_type'' ''title_text_shadow_text_shadow_type'' \<and>
   should_skip ''title_text_shadow_text_shadow_type'' toggle_control = Inr False"
proof -
  let ?k = "''title_text_shadow_text_shadow_type''"
  have 1: "list_ex (\<lambda>p. sublist p ?k) SKIP_CONTAINS" by code_simp
  have 2: "suffix ''_type'' ?k" by code_simp
  have 3: "\<not> prefix ''_'' ?k" by simp
  have 4: "dict_get toggle_control ''type'' JNull = Inr (JStr ''popover_toggle'')"
    by (simp add: toggle_control_def lookup_def)
  have 5: "in_str_set (JStr ''popover_toggle'') SKIP_TYPES = Inr False" by code_simp
  have 6: "\<not> list_ex (\<lambda>s. suffix s ?k) SKIP_SUFFIXES" by code_simp
  have 7: "?k \<notin> set SKIP_EXACT" by code_simp
  from 2 have sfx: "suffix ''_typography'' ?k \<or> suffix ''_type'' ?k" by (rule disjI2)
  from should_skip_keeps_toggle [OF 1 sfx 3 4 5 6 7] 1 2 show ?thesis by (intro conjI)
qed

section \<open>Properties of the control formatter\<close>

text \<open>
  Claim C1, as the code has it. For a \<^verbatim>\<open>select\<close> control whose options are a non-empty
  dictionary, the fragment lists the non-empty option keys: all of them when there are at
  most six, and otherwise the first five followed by \<^verbatim>\<open>+N\<close>, \<open>N\<close> being the number of keys
  left out. With no non-empty key the fragment is the quoted key alone.
\<close>

theorem format_control_select:
  assumes "map_of c ''type'' = Some (JStr ''select'')"
    and "map_of c ''options'' = Some (JObj kvs)"
    and "kvs \<noteq> []"
    and "opt_keys = filter (\<lambda>k. k \<noteq> []) (map fst kvs)"
  shows "format_control repr key (JObj c) =
     Inr (''`'' @ key @ ''`'' @
       (if opt_keys = [] then []
        else if length opt_keys \<le> 6 then '' ('' @ join '', '' opt_keys @ '')''
        else '' ('' @ join '', '' (take 5 opt_keys) @ '', +'' @
             str_int (int (length opt_keys) - 5) @ '')''))"
  using assms by (simp add: lookup_def eq_str_def Let_def)

text \<open>With eight option keys the fragment shows the first five, then \<^verbatim>\<open>+3\<close>.\<close>

theorem format_control_select_witness:
  "map_of (select_control eight_options) ''options'' = Some (JObj eight_options) \<and>
   eight_options \<noteq> [] \<and>
   format_control sample_repr ''align'' (JObj (select_control eight_options)) =
     Inr ''`align` (a, b, c, d, e, +3)''"
  using format_control_select
    [where c = "select_control eight_options" and kvs = eight_options
       and opt_keys = "[''a'', ''b'', ''c'', ''d'', ''e'', ''f'', ''g'', ''h'']"
       and repr = sample_repr and key = "''align''"]
  by (simp add: select_control_def eight_options_def six_options_def str_int_def digits.simps)

text \<open>
  The claim as stated, at most five keys shown, fails at six keys: all six are listed
  and nothing is left out.
\<close>

theorem six_option_keys_all_shown:
  "format_control sample_repr ''align'' (JObj (select_control six_options)) =
     Inr ''`align` (a, b, c, d, e, f)''"
  by (simp add: select_control_def six_options_def lookup_def eq_str_def)
















text \<open>
  Claim C10. A \<^verbatim>\<open>slider\<close> control whose default is a dictionary with no \<^verbatim>\<open>size\<close> entry, or
  with a \<^verbatim>\<open>size\<close> of zero, renders as the quoted key followed by \<^verbatim>\<open>(slider)\<close>: no default is
  shown, whatever else (a \<^verbatim>\<open>unit\<close>, say) the default holds.
\<close>

theorem format_control_slider_no_size:
  assumes "map_of c ''type'' = Some (JStr ''slider'')"
    and "map_of c ''default'' = Some (JObj d)"
    and "map_of d ''size'' = None \<or> map_of d ''size'' = Some (JInt 0) \<or>
         map_of d ''size'' = Some (JFloat 0)"
  shows "format_control repr key (JObj c) = Inr (''`'' @ key @ ''` (slider)'')"
  using assms by (auto simp: lookup_def eq_str_def Let_def)

theorem format_control_slider_no_size_witness:
  "map_of slider_control ''default'' = Some (JObj [(''unit'', JStr ''px''), (''size'', JInt 0)]) \<and>
   format_control sample_repr ''width'' (JObj slider_control) = Inr ''`width` (slider)''"
  using format_control_slider_no_size
    [where c = slider_control and d = "[(''unit'', JStr ''px''), (''size'', JInt 0)]"
       and repr = sample_repr and key = "''width''"]
  by (simp add: slider_control_def)

section \<open>Properties of the script\<close>




subsection \<open>The worklist and the requests\<close>

lemma practical_loop_eq:
  "practical_loop ws acc =
     acc @ filter (\<lambda>n. n \<notin> set skip_names \<and> \<not> list_ex (\<lambda>p. prefix p n) skip_prefixes) (map fst ws)"
  by (induction ws arbitrary: acc) auto

lemma fetch_widget_events:
  "\<exists>evs'. snd (fetch_widget h base auth n i name st) =
           snd st @ Request (base @ ''/'' @ name) auth # evs' \<and> \<not> list_ex is_request evs'"
  by (auto simp: fetch_widget_def Let_def split: sum.splits)

lemma fetch_loop_requests:
  "Request url a \<in> set (snd (fetch_loop h base auth n xs st)) \<Longrightarrow>
   Request url a \<in> set (snd st) \<or> (\<exists>name \<in> snd ` set xs. url = base @ ''/'' @ name)"
proof (induction xs arbitrary: st)
  case Nil
  then show ?case by simp
next
  case (Cons x xs)
  obtain i name where x: "x = (i, name)" by (cases x)
  obtain evs' where evs': "snd (fetch_widget h base auth n i name st) =
      snd st @ Request (base @ ''/'' @ name) auth # evs'" "\<not> list_ex is_request evs'"
    using fetch_widget_events by blast
  from Cons.prems x
  have "Request url a \<in> set (snd (fetch_loop h base auth n xs (fetch_widget h base auth n i name st)))"
    by simp
  from Cons.IH [OF this] show ?case
  proof
    assume "Request url a \<in> set (snd (fetch_widget h base auth n i name st))"
    with evs' have "Request url a \<in> set (snd st) \<or> url = base @ ''/'' @ name"
      by (auto simp: list_ex_iff)
    with x show ?thesis by force
  next
    assume "\<exists>name \<in> snd ` set xs. url = base @ ''/'' @ name"
    then show ?thesis by auto
  qed
qed

lemma from_widgets_mono: "from_widgets h base auth N bs \<Longrightarrow> N \<subseteq> M \<Longrightarrow> from_widgets h base auth M bs"
  unfolding from_widgets_def by blast

lemma from_widgets_new: "from_widgets h base auth N bs \<Longrightarrow> from_widgets h base auth N (bs @ [(cat, [])])"
  unfolding from_widgets_def by auto

lemma from_widgets_append:
  assumes "from_widgets h base auth N bs"
    and "http_get h (base @ ''/'' @ n) auth = Inr d" and "format_widget (py_repr h) n d = Inr b"
    and "n \<in> N"
  shows "from_widgets h base auth N (append_block bs cat b)"
  using assms unfolding from_widgets_def append_block_def
  by (auto split: if_splits) blast+

lemma fetch_widget_blocks:
  assumes "from_widgets h base auth N (fst st)" and "name \<in> N"
  shows "from_widgets h base auth N (fst (fetch_widget h base auth n i name st))"
  using assms
  by (auto simp: fetch_widget_def Let_def from_widgets_new from_widgets_append split: sum.splits)

lemma fetch_loop_blocks:
  "from_widgets h base auth N (fst st) \<Longrightarrow> snd ` set xs \<subseteq> N \<Longrightarrow>
   from_widgets h base auth N (fst (fetch_loop h base auth n xs st))"
proof (induction xs arbitrary: st)
  case Nil
  then show ?case by simp
next
  case (Cons x xs)
  obtain i name where x: "x = (i, name)" by (cases x)
  with Cons.prems have "from_widgets h base auth N (fst (fetch_widget h base auth n i name st))"
    by (intro fetch_widget_blocks) auto
  with Cons.IH Cons.prems x show ?case by simp
qed


lemma base_ne: "base @ ''/'' @ name \<noteq> (base::string)"
  by (metis append_self_conv list.distinct(1) append_is_Nil_conv)

text \<open>
  Claim C7. A widget identifier in the exclusion set, or starting with \<^verbatim>\<open>wp-widget-\<close>,
  is never in the worklist built from a widget list; a run makes no request for its
  detail; and every block of the document the run prints was made by \<open>format_widget\<close>
  from the detail fetched for another widget.
\<close>

theorem excluded_widget_not_fetched:
  assumes excl: "name \<in> set skip_names \<or> prefix ''wp-widget-'' name"
    and creds: "credentials (argv h) (environ h) = Some (site_url, username, password)"
  shows "name \<notin> set (practical_loop widgets []) \<and>
         Request (base_url site_url @ ''/'' @ name) auth \<notin> set (events (main h)) \<and>
         (\<forall>md. stdout (main h) = Some md \<longrightarrow>
            (\<exists>output_by_cat. document (py_repr h) output_by_cat = Inr md \<and>
               (\<forall>cat blocks b. (cat, blocks) \<in> set output_by_cat \<and> b \<in> set blocks \<longrightarrow>
                  (\<exists>n d. n \<noteq> name \<and>
                     http_get h (base_url site_url @ ''/'' @ n)
                       (auth_header (b64encode h) username password) = Inr d \<and>
                     format_widget (py_repr h) n d = Inr b))))"
proof (intro conjI allI impI)
  have notin: "name \<notin> set (practical_loop ws [])" for ws
    using excl by (auto simp: practical_loop_eq skip_prefixes_def)
  show "name \<notin> set (practical_loop widgets [])" by (rule notin)
  let ?base = "base_url site_url"
  let ?auth = "auth_header (b64encode h) username password"
  show "Request (?base @ ''/'' @ name) auth \<notin> set (events (main h))"
  proof
    assume in_events: "Request (?base @ ''/'' @ name) auth \<in> set (events (main h))"
    show False
    proof (cases "http_get h ?base ?auth")
      case (Inl e)
      with in_events creds show False by (simp add: main_def Let_def base_ne)
    next
      case (Inr data)
      show False
      proof (cases "widgets_items data")
        case (Inl e)
        with in_events creds Inr show False by (simp add: main_def Let_def base_ne)
      next
        case ws: (Inr ws)
        let ?practical = "practical_loop ws []"
        let ?st = "fetch_loop h ?base ?auth (length ?practical) (enumerate 0 (sort ?practical))
           ([], [Request ?base ?auth, Stderr (''Fetching '' @ str_int (int (length ?practical)) @
                                             '' widgets...'')])"
        have "events (main h) = snd ?st"
          using creds Inr ws by (simp add: main_def Let_def split: sum.splits)
        with in_events have "Request (?base @ ''/'' @ name) auth \<in> set (snd ?st)" by simp
        from fetch_loop_requests [OF this]
        have "\<exists>n \<in> snd ` set (enumerate 0 (sort ?practical)). ?base @ ''/'' @ name = ?base @ ''/'' @ n"
          by (auto simp: base_ne)
        then have "name \<in> snd ` set (enumerate 0 (sort ?practical))" by auto
        then have "name \<in> set ?practical"
          by (metis list.set_map map_snd_enumerate set_sort)
        with notin show False by blast
      qed
    qed
  qed
  fix md
  assume out: "stdout (main h) = Some md"
  show "\<exists>output_by_cat. document (py_repr h) output_by_cat = Inr md \<and>
               (\<forall>cat blocks b. (cat, blocks) \<in> set output_by_cat \<and> b \<in> set blocks \<longrightarrow>
                  (\<exists>n d. n \<noteq> name \<and> http_get h (?base @ ''/'' @ n) ?auth = Inr d \<and>
                     format_widget (py_repr h) n d = Inr b))"
  proof (cases "http_get h ?base ?auth")
    case (Inl e)
    with out creds show ?thesis by (simp add: main_def Let_def)
  next
    case (Inr data)
    show ?thesis
    proof (cases "widgets_items data")
      case (Inl e)
      with out creds Inr show ?thesis by (simp add: main_def Let_def)
    next
      case ws: (Inr ws)
      let ?practical = "practical_loop ws []"
      let ?st = "fetch_loop h ?base ?auth (length ?practical) (enumerate 0 (sort ?practical))
           ([], [Request ?base ?auth, Stderr (''Fetching '' @ str_int (int (length ?practical)) @
                                             '' widgets...'')])"
      have doc: "document (py_repr h) (fst ?st) = Inr md"
        using out creds Inr ws by (simp add: main_def Let_def split: sum.splits)
      have "from_widgets h ?base ?auth (set ?practical) (fst ?st)"
        by (rule fetch_loop_blocks) (simp_all add: from_widgets_def image_image flip: set_map)
      with notin [of ws] have "\<forall>cat blocks b. (cat, blocks) \<in> set (fst ?st) \<and> b \<in> set blocks \<longrightarrow>
                  (\<exists>n d. n \<noteq> name \<and> http_get h (?base @ ''/'' @ n) ?auth = Inr d \<and>
                     format_widget (py_repr h) n d = Inr b)"
        unfolding from_widgets_def by (metis (no_types, lifting))
      with doc show ?thesis by blast
    qed
  qed
qed


theorem excluded_widget_not_fetched_witness:
  "''common-base'' \<in> set skip_names \<and>
   credentials (argv sample_host) (environ sample_host) =
     Some (''https://example.com/'', ''admin'', ''xxxx xxxx'') \<and>
   ''common-base'' \<notin> set (practical_loop [(''heading'', JObj []), (''common-base'', JObj [])] []) \<and>
   Request ''https://example.com/wp-json/communitytech/v1/elementor/widgets/common-base''
     ''Basic YWRtaW46eHh4eCB4eHh4'' \<notin> set (events (main sample_host)) \<and>
   stdout (main sample_host) \<noteq> None"
proof -
  have 1: "''common-base'' \<in> set skip_names" by (simp add: skip_names_def)
  have 2: "credentials (argv sample_host) (environ sample_host) =
     Some (''https://example.com/'', ''admin'', ''xxxx xxxx'')"
    by (simp add: sample_host_def credentials_def)
  have 3: "base_url ''https://example.com/'' @ ''/'' @ ''common-base'' =
     ''https://example.com/wp-json/communitytech/v1/elementor/widgets/common-base''"
    by (simp add: base_url_def rstrip_slash_def)
  have 4: "stdout (main sample_host) \<noteq> None" by code_simp
  from excluded_widget_not_fetched [OF disjI1 [OF 1] 2,
      of "[(''heading'', JObj []), (''common-base'', JObj [])]" "''Basic YWRtaW46eHh4eCB4eHh4''"]
  show ?thesis using 1 2 4 unfolding 3 by blast
qed

subsection \<open>The order of the categories\<close>




lemma map_str_of: "list_all is_str ks \<Longrightarrow> map JStr (map str_of ks) = ks"
proof (induction ks)
  case Nil
  then show ?case by simp
next
  case (Cons k ks)
  then show ?case by (cases k) auto
qed







section \<open>Properties of the widget block\<close>

lemma format_widget_unfold:
  "lookup d ''controls'' (JObj []) = JObj cs \<Longrightarrow>
   format_widget repr name (JObj d) =
     (case keyword_lines d of
        Inl e \<Rightarrow> Inl e
      | Inr kl \<Rightarrow>
         (case collect_sections cs (Map.empty, Map.empty) of
            Inl e \<Rightarrow> Inl e
          | Inr meta \<Rightarrow>
             (case group_controls repr meta cs [] of
                Inl e \<Rightarrow> Inl e
              | Inr grouped \<Rightarrow>
                 (case tab_lines repr [''content'', ''style''] grouped (heading repr name d # kl) of
                    Inl e \<Rightarrow> Inl e
                  | Inr lines \<Rightarrow> Inr (join newline lines)))))"
  by (simp add: keyword_lines_def heading_def Let_def split: sum.splits)

lemma should_skip_False_dict:
  assumes "should_skip k c = Inr False"
  shows "\<exists>c'. c = JObj c' \<and> \<not> eq_str (lookup c' ''type'' JNull) ''section''"
proof (cases c)
  case (JObj c')
  have "in_str_set (JStr ''section'') SKIP_TYPES = Inr True"
    by (simp add: in_str_set_def SKIP_TYPES_def)
  with assms JObj show ?thesis
    by (auto simp: should_skip_def eq_str_def split: if_splits sum.splits bool.splits)
qed (use assms in \<open>auto simp: should_skip_def split: if_splits\<close>)

lemma group_control_skip:
  "should_skip k c = Inr True \<Longrightarrow> group_control repr meta k c g = Inr g"
  by (simp add: group_control_def)

lemma group_control_advanced:
  "advanced meta (k, c) \<Longrightarrow> group_control repr meta k c g = Inr g"
  by (auto simp: advanced_def effective_tab_def section_of_def group_control_def eq_str_def
           split: sum.splits)

lemma group_controls_dropped:
  "\<forall>kc \<in> set cs. should_skip (fst kc) (snd kc) = Inr True \<or> advanced meta kc \<Longrightarrow>
   group_controls repr meta cs g = Inr g"
  by (induction cs) (auto simp: group_control_skip group_control_advanced)

lemma group_controls_filter:
  "group_controls repr meta (filter (\<lambda>kc. \<not> advanced meta kc) cs) g =
   group_controls repr meta cs g"
  by (induction cs arbitrary: g) (auto simp: group_control_advanced split: sum.splits)

lemma collect_sections_filter:
  "collect_sections (filter (\<lambda>kc. \<not> advanced m kc) cs) acc = collect_sections cs acc"
proof (induction cs arbitrary: acc)
  case Nil
  then show ?case by simp
next
  case (Cons kc cs)
  obtain k c where kc: "kc = (k, c)" by (cases kc)
  obtain l t where acc: "acc = (l, t)" by (cases acc)
  show ?case
  proof (cases "advanced m kc")
    case True
    with kc obtain c' where "c = JObj c'" "\<not> eq_str (lookup c' ''type'' JNull) ''section''"
      using should_skip_False_dict [of k c] by (auto simp: advanced_def)
    with True kc acc Cons.IH show ?thesis by simp
  next
    case False
    with kc acc Cons.IH show ?thesis
      by (cases c) (simp_all)
  qed
qed

lemma tab_lines_no_groups: "tab_lines repr tabs [] lines = Inr lines"
  by (induction tabs) auto

text \<open>
  Claim C5. Take a widget whose controls are a dictionary on which the first loop ends
  with the section metadata \<open>meta\<close>. If every control is either skipped by the filter or
  has the effective tab \<^verbatim>\<open>advanced\<close>, the block is the heading, followed by the keyword
  line when there are keywords, and nothing else: no bullet line. More generally the
  block is the same as that of the widget without its controls of effective tab
  \<^verbatim>\<open>advanced\<close>: such a control contributes nothing.
\<close>

theorem format_widget_advanced_omitted:
  assumes controls: "lookup d ''controls'' (JObj []) = JObj cs"
    and meta: "collect_sections cs (Map.empty, Map.empty) = Inr meta"
  shows "((\<forall>kc \<in> set cs. should_skip (fst kc) (snd kc) = Inr True \<or> advanced meta kc) \<and>
          keyword_lines d = Inr kl \<longrightarrow>
          format_widget repr name (JObj d) = Inr (join newline (heading repr name d # kl))) \<and>
         (lookup d' ''title'' (JStr name) = lookup d ''title'' (JStr name) \<and>
          lookup d' ''keywords'' (JArr []) = lookup d ''keywords'' (JArr []) \<and>
          lookup d' ''controls'' (JObj []) = JObj (filter (\<lambda>kc. \<not> advanced meta kc) cs) \<longrightarrow>
          format_widget repr name (JObj d') = format_widget repr name (JObj d))"
proof (intro conjI impI)
  assume "(\<forall>kc \<in> set cs. should_skip (fst kc) (snd kc) = Inr True \<or> advanced meta kc) \<and>
          keyword_lines d = Inr kl"
  then show "format_widget repr name (JObj d) = Inr (join newline (heading repr name d # kl))"
    by (simp add: format_widget_unfold [OF controls] meta group_controls_dropped
          tab_lines_no_groups del: format_widget.simps)
next
  assume same: "lookup d' ''title'' (JStr name) = lookup d ''title'' (JStr name) \<and>
          lookup d' ''keywords'' (JArr []) = lookup d ''keywords'' (JArr []) \<and>
          lookup d' ''controls'' (JObj []) = JObj (filter (\<lambda>kc. \<not> advanced meta kc) cs)"
  then have "keyword_lines d' = keyword_lines d" "heading repr name d' = heading repr name d"
    by (simp_all add: keyword_lines_def heading_def)
  with same show "format_widget repr name (JObj d') = format_widget repr name (JObj d)"
    by (cases "keyword_lines d")
       (simp_all add: format_widget_unfold [OF controls] format_widget_unfold [of d']
          collect_sections_filter group_controls_filter meta del: format_widget.simps
          split: sum.splits)
qed

theorem format_widget_advanced_omitted_witness:
  "keyword_lines advanced_only_widget = Inr [''*space, gap*''] \<and>
   format_widget sample_repr ''spacer'' (JObj advanced_only_widget) =
     Inr (join newline [heading sample_repr ''spacer'' advanced_only_widget, ''*space, gap*''])"
proof -
  let ?cs = "[(''section_effects'', JObj [(''type'', JStr ''section''), (''label'', JStr ''Motion Effects''),
                                     (''tab'', JStr ''advanced'')]),
         (''sticky'', JObj [(''type'', JStr ''select''), (''section'', JStr ''section_effects'')]),
         (''_margin'', JObj [(''type'', JStr ''dimensions''), (''section'', JStr ''section_effects'')]),
         (''custom_css'', JObj [(''type'', JStr ''code''), (''tab'', JStr ''advanced'')])]"
  let ?meta = "([''section_effects'' \<mapsto> JStr ''Motion Effects''],
                [''section_effects'' \<mapsto> JStr ''advanced''])"
  have 1: "lookup advanced_only_widget ''controls'' (JObj []) = JObj ?cs"
    by (simp add: advanced_only_widget_def lookup_def)
  have 2: "collect_sections ?cs (Map.empty, Map.empty) = Inr ?meta"
    by (simp add: lookup_def eq_str_def)
  have s1: "should_skip ''section_effects'' (JObj [(''type'', JStr ''section''), (''label'', JStr ''Motion Effects''),
                                     (''tab'', JStr ''advanced'')]) = Inr True" by code_simp
  have s2: "should_skip ''sticky'' (JObj [(''type'', JStr ''select''), (''section'', JStr ''section_effects'')]) = Inr False"
    by code_simp
  have s3: "should_skip ''_margin'' (JObj [(''type'', JStr ''dimensions''), (''section'', JStr ''section_effects'')]) = Inr True"
    by code_simp
  have s4: "should_skip ''custom_css'' (JObj [(''type'', JStr ''code''), (''tab'', JStr ''advanced'')]) = Inr False"
    by code_simp
  have 3: "\<forall>kc \<in> set ?cs. should_skip (fst kc) (snd kc) = Inr True \<or> advanced ?meta kc"
    by (simp add: s1 s2 s3 s4 advanced_def effective_tab_def section_of_def meta_get_def lookup_def)
  have 4: "keyword_lines advanced_only_widget = Inr [''*space, gap*'']"
    by (simp add: keyword_lines_def advanced_only_widget_def lookup_def)
  from format_widget_advanced_omitted [OF 1 2, of "[''*space, gap*'']" sample_repr "''spacer''"] 3 4
  show ?thesis by blast
qed


subsection \<open>Controls without a section\<close>

lemma group_control_placed:
  assumes "placed meta (k, c) t s"
  shows "group_control repr meta k c g = Inr (file_under g (group_key_of repr t s) meta t s (k, c))"
  using assms
  by (auto simp: placed_def section_of_def effective_tab_def group_control_def file_under_def
        group_key_of_def section_label_def eq_str_def meta_get_def Let_def
        split: sum.splits if_splits)

lemma group_control_cases:
  assumes "group_control repr meta k c g = Inr g'"
  shows "g' = g \<or> (\<exists>t s. placed meta (k, c) t s \<and>
           g' = file_under g (group_key_of repr t s) meta t s (k, c))"
proof (cases "\<exists>t s. placed meta (k, c) t s")
  case True
  then obtain t s where "placed meta (k, c) t s" by blast
  with assms group_control_placed [OF this, of repr g] show ?thesis by auto
next
  case False
  with assms show ?thesis
    by (auto simp: placed_def section_of_def effective_tab_def group_control_def eq_str_def
          split: sum.splits if_splits bool.splits)
qed

lemma map_of_append_control:
  "map_of (append_control g gk kc) x =
     map_option (\<lambda>gr. if x = gk then gr\<lparr>g_controls := g_controls gr @ [kc]\<rparr> else gr) (map_of g x)"
  by (induction g) (auto simp: append_control_def)

lemma map_of_file_under_old:
  assumes "map_of g x = Some gr"
  shows "\<exists>gr'. map_of (file_under g gk meta t s kc) x = Some gr' \<and> extends gr gr'"
proof -
  have "map_of (if gk \<in> set (map fst g) then g
        else g @ [(gk, \<lparr>g_label = section_label meta s, g_tab = t, g_controls = []\<rparr>)]) x = Some gr"
    using assms by simp
  then show ?thesis
    unfolding file_under_def map_of_append_control by (auto simp: extends_def)
qed

lemma map_of_file_under_key:
  "\<exists>gr. map_of (file_under g gk meta t s kc) gk = Some gr \<and> kc \<in> set (g_controls gr)"
proof (cases "gk \<in> set (map fst g)")
  case True
  then obtain gr where "map_of g gk = Some gr"
    by (metis map_of_eq_None_iff not_Some_eq set_map)
  with True show ?thesis
    unfolding file_under_def map_of_append_control by simp
next
  case False
  then have "map_of g gk = None" by (simp add: map_of_eq_None_iff)
  with False show ?thesis
    unfolding file_under_def map_of_append_control by (simp add: map_add_def)
qed

lemma map_of_file_under_new:
  assumes "map_of g x = None" and "map_of (file_under g gk meta t s kc) x = Some gr"
  shows "x = gk \<and> g_label gr = section_label meta s \<and> g_tab gr = t"
proof (cases "gk \<in> set (map fst g)")
  case True
  with assms show ?thesis
    unfolding file_under_def map_of_append_control by simp
next
  case False
  with assms show ?thesis
    unfolding file_under_def map_of_append_control
    by (auto simp: map_add_def split: if_splits option.splits)
qed

lemma group_control_preserves:
  assumes "group_control repr meta k c g = Inr g'" and "map_of g x = Some gr"
  shows "\<exists>gr'. map_of g' x = Some gr' \<and> extends gr gr'"
proof -
  from group_control_cases [OF assms(1)] show ?thesis
  proof
    assume "g' = g"
    with assms(2) show ?thesis by (auto simp: extends_def)
  next
    assume "\<exists>t s. placed meta (k, c) t s \<and>
           g' = file_under g (group_key_of repr t s) meta t s (k, c)"
    then obtain t s where "g' = file_under g (group_key_of repr t s) meta t s (k, c)" by blast
    with map_of_file_under_old [OF assms(2)] show ?thesis by blast
  qed
qed

lemma extends_trans: "extends a b \<Longrightarrow> extends b c \<Longrightarrow> extends a c"
  by (auto simp: extends_def)

lemma group_controls_preserves:
  "group_controls repr meta cs g = Inr g' \<Longrightarrow> map_of g x = Some gr \<Longrightarrow>
   \<exists>gr'. map_of g' x = Some gr' \<and> extends gr gr'"
proof (induction cs arbitrary: g gr)
  case Nil
  then show ?case by (auto simp: extends_def)
next
  case (Cons kc cs)
  obtain k c where kc: "kc = (k, c)" by (cases kc)
  with Cons.prems obtain g1 where g1: "group_control repr meta k c g = Inr g1"
    "group_controls repr meta cs g1 = Inr g'"
    by (auto split: sum.splits)
  from group_control_preserves [OF g1(1) Cons.prems(2)]
  obtain gr1 where gr1: "map_of g1 x = Some gr1" "extends gr gr1" by blast
  from Cons.IH [OF g1(2) gr1(1)] gr1(2) show ?case
    using extends_trans by blast
qed

lemma group_controls_places:
  "group_controls repr meta cs g = Inr g' \<Longrightarrow> kc \<in> set cs \<Longrightarrow> placed meta kc t s \<Longrightarrow>
   \<exists>gr. map_of g' (group_key_of repr t s) = Some gr \<and> kc \<in> set (g_controls gr)"
proof (induction cs arbitrary: g)
  case Nil
  then show ?case by simp
next
  case (Cons kc' cs)
  obtain k c where kc': "kc' = (k, c)" by (cases kc')
  with Cons.prems obtain g1 where g1: "group_control repr meta k c g = Inr g1"
    "group_controls repr meta cs g1 = Inr g'"
    by (auto split: sum.splits)
  show ?case
  proof (cases "kc = kc'")
    case True
    with Cons.prems(3) kc' have "placed meta (k, c) t s" by simp
    from group_control_placed [OF this, of repr g] g1(1)
    have "g1 = file_under g (group_key_of repr t s) meta t s (k, c)" by simp
    with map_of_file_under_key [of g "group_key_of repr t s" meta t s "(k, c)"]
    obtain gr1 where gr1: "map_of g1 (group_key_of repr t s) = Some gr1" "(k, c) \<in> set (g_controls gr1)"
      by auto
    from group_controls_preserves [OF g1(2) gr1(1)] gr1(2) True kc'
    show ?thesis by (auto simp: extends_def)
  next
    case False
    with Cons.prems(2) have "kc \<in> set cs" by simp
    from Cons.IH [OF g1(2) this Cons.prems(3)] show ?thesis .
  qed
qed

lemma group_controls_creator:
  "group_controls repr meta cs g = Inr g' \<Longrightarrow> map_of g x = None \<Longrightarrow> map_of g' x = Some gr \<Longrightarrow>
   \<exists>kc \<in> set cs. \<exists>t s. placed meta kc t s \<and> group_key_of repr t s = x \<and>
      g_label gr = section_label meta s \<and> g_tab gr = t"
proof (induction cs arbitrary: g)
  case Nil
  then show ?case by simp
next
  case (Cons kc cs)
  obtain k c where kc: "kc = (k, c)" by (cases kc)
  with Cons.prems obtain g1 where g1: "group_control repr meta k c g = Inr g1"
    "group_controls repr meta cs g1 = Inr g'"
    by (auto split: sum.splits)
  show ?case
  proof (cases "map_of g1 x")
    case None
    from Cons.IH [OF g1(2) None Cons.prems(3)] show ?thesis by auto
  next
    case (Some gr1)
    from group_control_cases [OF g1(1)] Some Cons.prems(2)
    obtain t s where ts: "placed meta (k, c) t s"
      "g1 = file_under g (group_key_of repr t s) meta t s (k, c)"
      by auto
    from map_of_file_under_new [OF Cons.prems(2)] Some ts(2)
    have new: "x = group_key_of repr t s" "g_label gr1 = section_label meta s" "g_tab gr1 = t"
      by auto
    from group_controls_preserves [OF g1(2) Some] Cons.prems(3)
    have "extends gr1 gr" by auto
    with new ts(1) kc show ?thesis by (auto simp: extends_def)
  qed
qed

lemma collect_sections_no_header:
  "collect_sections cs (l, t) = Inr (l', t') \<Longrightarrow> l x = None \<Longrightarrow> t x = None \<Longrightarrow>
   \<forall>c. (x, JObj c) \<in> set cs \<longrightarrow> lookup c ''type'' JNull \<noteq> JStr ''section'' \<Longrightarrow>
   l' x = None \<and> t' x = None"
proof (induction cs arbitrary: l t)
  case Nil
  then show ?case by simp
next
  case (Cons kc cs)
  obtain k c where kc: "kc = (k, c)" by (cases kc)
  with Cons.prems(1) obtain c' where c': "c = JObj c'" by (cases c) auto
  have rest: "\<forall>c. (x, JObj c) \<in> set cs \<longrightarrow> lookup c ''type'' JNull \<noteq> JStr ''section''"
    using Cons.prems(4) by simp
  show ?case
  proof (cases "eq_str (lookup c' ''type'' JNull) ''section''")
    case True
    let ?l = "l(k \<mapsto> lookup c' ''label'' (JStr k))"
    let ?t = "t(k \<mapsto> lookup c' ''tab'' (JStr ''content''))"
    from Cons.prems(4) kc c' True have "k \<noteq> x" by (auto simp: eq_str_def)
    with Cons.prems(2,3) have none: "?l x = None" "?t x = None" by simp_all
    from Cons.prems(1) kc c' True have "collect_sections cs (?l, ?t) = Inr (l', t')" by simp
    from Cons.IH [OF this none rest] show ?thesis .
  next
    case False
    with Cons.prems(1) kc c' have "collect_sections cs (l, t) = Inr (l', t')" by simp
    from Cons.IH [OF this Cons.prems(2,3) rest] show ?thesis .
  qed
qed

text \<open>
  Claim C9, as the code has it. Take the controls of a widget on which both loops end
  normally, and among them a control that passes the filter, has no \<^verbatim>\<open>section\<close> field and
  whose effective tab is not \<^verbatim>\<open>advanced\<close>. The control is in the group of its tab and the
  section \<^verbatim>\<open>other\<close>. When no section header is named \<^verbatim>\<open>other\<close>, and every control filed
  under the same group key has the section \<^verbatim>\<open>other\<close> and the same tab, the label of the
  group is \<^verbatim>\<open>other\<close> and its tab is the control's own \<^verbatim>\<open>tab\<close> field, or \<^verbatim>\<open>content\<close> when
  the control has none.
\<close>

theorem sectionless_control_group:
  assumes meta: "collect_sections cs (Map.empty, Map.empty) = Inr meta"
    and grouped: "group_controls repr meta cs [] = Inr grouped"
    and ctrl: "(key, JObj c) \<in> set cs"
    and keep: "should_skip key (JObj c) = Inr False"
    and nosec: "map_of c ''section'' = None"
    and tab: "effective_tab meta (JObj c) = Inr tab"
    and notadv: "tab \<noteq> JStr ''advanced''"
  shows "\<exists>g. map_of grouped (py_str repr tab @ ''|other'') = Some g \<and>
           (key, JObj c) \<in> set (g_controls g) \<and>
           ((\<forall>c'. (''other'', JObj c') \<in> set cs \<longrightarrow> lookup c' ''type'' JNull \<noteq> JStr ''section'') \<and>
            (\<forall>kc \<in> set cs. \<forall>t s. placed meta kc t s \<and>
                group_key_of repr t s = py_str repr tab @ ''|other'' \<longrightarrow>
                s = JStr ''other'' \<and> t = tab) \<longrightarrow>
            g_label g = JStr ''other'' \<and> g_tab g = tab \<and> tab = lookup c ''tab'' (JStr ''content''))"
proof -
  have sec: "section_of (JObj c) = Inr (JStr ''other'')"
    using nosec by (simp add: section_of_def lookup_def)
  with keep tab notadv have placed: "placed meta (key, JObj c) tab (JStr ''other'')"
    by (simp add: placed_def)
  have gk: "group_key_of repr tab (JStr ''other'') = py_str repr tab @ ''|other''"
    by (simp add: group_key_of_def)
  from group_controls_places [OF grouped ctrl placed] gk
  obtain g where g: "map_of grouped (py_str repr tab @ ''|other'') = Some g"
    "(key, JObj c) \<in> set (g_controls g)" by auto
  have "g_label g = JStr ''other'' \<and> g_tab g = tab \<and> tab = lookup c ''tab'' (JStr ''content'')"
    if noheader: "\<forall>c'. (''other'', JObj c') \<in> set cs \<longrightarrow> lookup c' ''type'' JNull \<noteq> JStr ''section''"
      and nocoll: "\<forall>kc \<in> set cs. \<forall>t s. placed meta kc t s \<and>
                group_key_of repr t s = py_str repr tab @ ''|other'' \<longrightarrow>
                s = JStr ''other'' \<and> t = tab"
  proof -
    obtain l t where lt: "meta = (l, t)" by (cases meta)
    from collect_sections_no_header [OF meta [unfolded lt] _ _ noheader]
    have none: "l ''other'' = None" "t ''other'' = None" by auto
    from group_controls_creator [OF grouped _ g(1)]
    obtain kc t' s' where creator: "kc \<in> set cs" "placed meta kc t' s'"
      "group_key_of repr t' s' = py_str repr tab @ ''|other''"
      "g_label g = section_label meta s'" "g_tab g = t'"
      by auto
    with nocoll have "s' = JStr ''other''" "t' = tab" by blast+
    with creator none lt have "g_label g = JStr ''other''" "g_tab g = tab"
      by (simp_all add: section_label_def meta_get_def)
    moreover from tab sec none lt have "tab = lookup c ''tab'' (JStr ''content'')"
      by (simp add: effective_tab_def meta_get_def)
    ultimately show ?thesis by simp
  qed
  with g show ?thesis by blast
qed

theorem sectionless_control_group_witness:
  "should_skip (fst html_control) (snd html_control) = Inr False \<and>
   effective_tab no_sections (snd html_control) = Inr (JStr ''content'') \<and>
   group_controls sample_repr no_sections [html_control] [] =
     Inr [(''content|other'',
           \<lparr>g_label = JStr ''other'', g_tab = JStr ''content'', g_controls = [html_control]\<rparr>)] \<and>
   (\<exists>g. map_of [(''content|other'',
           \<lparr>g_label = JStr ''other'', g_tab = JStr ''content'', g_controls = [html_control]\<rparr>)]
          ''content|other'' = Some g \<and>
        html_control \<in> set (g_controls g) \<and> g_label g = JStr ''other'' \<and>
        g_tab g = JStr ''content'')"
proof -
  let ?c = "[(''type'', JStr ''code'')]"
  let ?g = "[(''content|other'',
      \<lparr>g_label = JStr ''other'', g_tab = JStr ''content'', g_controls = [html_control]\<rparr>)]"
  have 1: "should_skip ''html'' (JObj ?c) = Inr False" by code_simp
  have 2: "effective_tab no_sections (JObj ?c) = Inr (JStr ''content'')"
    by (simp add: effective_tab_def section_of_def no_sections_def meta_get_def lookup_def)
  have 3: "collect_sections [(''html'', JObj ?c)] (Map.empty, Map.empty) = Inr no_sections"
    by (simp add: no_sections_def lookup_def eq_str_def)
  have 4: "group_controls sample_repr no_sections [(''html'', JObj ?c)] [] = Inr ?g"
    using 1 by (simp add: html_control_def no_sections_def group_control_def lookup_def
        meta_get_def eq_str_def append_control_def)
  have 5: "\<forall>c'. (''other'', JObj c') \<in> set [(''html'', JObj ?c)] \<longrightarrow>
             lookup c' ''type'' JNull \<noteq> JStr ''section''"
    by simp
  have 6: "\<forall>kc \<in> set [(''html'', JObj ?c)]. \<forall>t s. placed no_sections kc t s \<and>
             group_key_of sample_repr t s = py_str sample_repr (JStr ''content'') @ ''|other'' \<longrightarrow>
             s = JStr ''other'' \<and> t = JStr ''content''"
    using 2 by (simp add: placed_def section_of_def lookup_def)
  have 7: "(''html'', JObj ?c) \<in> set [(''html'', JObj ?c)]" by simp
  have 8: "map_of ?c ''section'' = None" by simp
  have 9: "JStr ''content'' \<noteq> JStr ''advanced''" by simp
  from sectionless_control_group [OF 3 4 7 1 8 2 9] 5 6
  have "\<exists>g. map_of ?g (py_str sample_repr (JStr ''content'') @ ''|other'') = Some g \<and>
          (''html'', JObj ?c) \<in> set (g_controls g) \<and>
          g_label g = JStr ''other'' \<and> g_tab g = JStr ''content''"
    by auto
  with 1 2 4 show ?thesis by (simp add: html_control_def)
qed


text \<open>
  Why the statement above asks that no other tab and section share the group key: the
  key joins the two with a bar, and a group keeps the label and the tab of the control
  that created it. Here the second control has no section and the tab \<^verbatim>\<open>content|x\<close>, and
  lands in the group of the first.
\<close>

lemma shared_group_key_keeps_first_label:
  "group_controls sample_repr no_sections shared_key_controls [] =
     Inr [(''content|x|other'',
           \<lparr>g_label = JStr ''x|other'', g_tab = JStr ''content'',
            g_controls = shared_key_controls\<rparr>)]"
proof -
  have 1: "should_skip ''intro'' (JObj [(''type'', JStr ''text''), (''section'', JStr ''x|other''),
                       (''tab'', JStr ''content'')]) = Inr False" by code_simp
  have 2: "should_skip ''notes'' (JObj [(''type'', JStr ''text''), (''tab'', JStr ''content|x'')]) = Inr False"
    by code_simp
  show ?thesis
    using 1 2
    by (simp add: shared_key_controls_def no_sections_def group_control_def lookup_def
        meta_get_def eq_str_def append_control_def)
qed

text \<open>
  The claim as stated, every such control is grouped, fails for a control whose own tab
  is \<^verbatim>\<open>advanced\<close>: it passes the filter and its section is \<^verbatim>\<open>other\<close>, yet no group holds it.
\<close>

theorem advanced_sectionless_control_not_grouped:
  "should_skip (fst css_control) (snd css_control) = Inr False \<and>
   section_of (snd css_control) = Inr (JStr ''other'') \<and>
   collect_sections [css_control] no_sections = Inr no_sections \<and>
   group_controls sample_repr no_sections [css_control] [] = Inr []"
proof -
  have 1: "should_skip (fst css_control) (snd css_control) = Inr False" by code_simp
  have 2: "section_of (snd css_control) = Inr (JStr ''other'')" by code_simp
  have 3: "collect_sections [css_control] no_sections = Inr no_sections"
    by (simp add: css_control_def no_sections_def lookup_def eq_str_def)
  have 4: "group_controls sample_repr no_sections [css_control] [] = Inr []"
    using 1 by (simp add: css_control_def no_sections_def group_control_def lookup_def
        meta_get_def eq_str_def)
  from 1 2 3 4 show ?thesis by (intro conjI)
qed

end
